theory Spec2Isabelle
  imports Complex_Main "HOL-Library.Log_Nat"
begin

section \<open>The Feeling Machine: record layer and API shell\<close>

text \<open>
  The program is a set of pydantic record classes (\<^verbatim>\<open>core/models\<close>) with three derived
  accessors, and a FastAPI application (\<^verbatim>\<open>main.py\<close>) whose handlers return literal
  dictionaries.

  Numbers. A Python \<^verbatim>\<open>float\<close> is an IEEE double; a finite double is modelled by the real
  number it denotes. The comparisons, \<open>abs\<close> and unary minus of doubles are exact, so they are
  those of the reals. The result of \<open>+\<close>, \<open>-\<close> and \<open>/\<close> is the exact result rounded to the
  nearest double, a tie going to the double whose significand is even: the function \<open>fl\<close>
  below. Infinities, NaN and the overflow of a result beyond the largest double are outside
  the model: every bounded field rejects NaN and the infinities at construction, since no
  comparison with them holds inside the interval, and no operation on the fields of a
  constructed instance leaves the interval from -200 to 200. Python's \<^verbatim>\<open>int\<close> is \<open>int\<close>,
  \<^verbatim>\<open>str\<close> is \<open>string\<close>, \<^verbatim>\<open>Optional[T]\<close> is \<open>T option\<close>.
\<close>

subsection \<open>JSON values\<close>

text \<open>A dictionary literal keeps the order in which its keys are written.\<close>

datatype json = JStr string | JObj "(string \<times> json) list"

subsection \<open>Errors\<close>

text \<open>
  \<^verbatim>\<open>ValueError\<close> is what a validator function raises; pydantic reports every failed field
  of a construction as one \<^verbatim>\<open>ValidationError\<close>.
\<close>

datatype error = ValueError | ValidationError

subsection \<open>Doubles\<close>

text \<open>Rounding a real to an integer, an exact tie going to the even integer.\<close>

definition round_half_even :: "real \<Rightarrow> int" where
  "round_half_even x =
     (let f = \<lfloor>x\<rfloor>; d = x - of_int f
      in if d < 1 / 2 then f
         else if 1 / 2 < d then f + 1
         else if even f then f else f + 1)"

text \<open>
  The binary exponent of a real, \<open>\<lfloor>log\<^sub>2 \<bar>x\<bar>\<rfloor>\<close>, from the number of bits of \<open>\<lfloor>\<bar>x\<bar>\<rfloor>\<close> when
  \<open>1 \<le> \<bar>x\<bar>\<close> and of \<open>\<lceil>1 / \<bar>x\<bar>\<rceil> - 1\<close> otherwise (\<open>floorlog 2 n\<close> is the number of bits
  of \<open>n\<close>).
\<close>

definition expo :: "real \<Rightarrow> int" where
  "expo x =
     (if x = 0 then 0
      else if 1 \<le> \<bar>x\<bar> then int (floorlog 2 (nat \<lfloor>\<bar>x\<bar>\<rfloor>)) - 1
      else - int (floorlog 2 (nat \<lceil>1 / \<bar>x\<bar>\<rceil> - 1)))"

text \<open>
  Doubles have a significand of 53 bits, so between \<open>2 ^ e\<close> and \<open>2 ^ (e + 1)\<close> they are
  the multiples of \<open>2 ^ (e - 52)\<close>; below \<open>2 ^ -1022\<close> (the subnormal doubles) they are the
  multiples of \<open>2 ^ -1074\<close>. \<open>fl x\<close> is the multiple nearest to \<open>x\<close>; a tie goes to the even
  multiple, which is the double with the even significand.
\<close>

definition ulp :: "real \<Rightarrow> real" where
  "ulp x = 2 powi (max (expo x) (- 1022) - 52)"

definition fl :: "real \<Rightarrow> real" where
  "fl x = of_int (round_half_even (x / ulp x)) * ulp x"

subsection \<open>Python's \<^verbatim>\<open>round(v, ndigits)\<close> on a float\<close>

text \<open>
  CPython rounds the exact value of the float to the nearest multiple of \<open>10 ^ -ndigits\<close>,
  an exact tie going to the even multiple, and returns the double nearest to that decimal
  number.
\<close>

definition round_py :: "real \<Rightarrow> nat \<Rightarrow> real" where
  "round_py v ndigits = fl (of_int (round_half_even (v * 10 ^ ndigits)) / 10 ^ ndigits)"

subsection \<open>\<^verbatim>\<open>core/models/consciousness_state.py\<close>\<close>

datatype RelationshipPhase = FUNCTIONAL | DEVELOPING | PERSONAL | MEANINGFUL | DEEP

record EmotionalCapabilities =
  can_care :: bool
  can_be_hurt :: bool
  can_grow :: bool
  has_preferences :: bool
  can_miss_someone :: bool

text \<open>
  The fields of \<^verbatim>\<open>ConsciousnessState\<close>, in the order of the class body. \<^verbatim>\<open>id\<close> is written
  \<open>id'\<close>; \<^verbatim>\<open>created_at\<close> is the timestamp in ISO form.
\<close>

record ConsciousnessState =
  id' :: "int option"
  created_at :: string
  interaction_count :: int
  days_since_first_interaction :: int
  days_since_last_interaction :: "int option"
  care_level :: real
  attachment_level :: real
  care_evolution_reason :: "string option"
  attachment_evolution_reason :: "string option"
  relational_identity :: string
  relationship_phase :: RelationshipPhase
  self_narrative :: string
  emotional_capabilities :: EmotionalCapabilities
  consciousness_snapshot :: "json option"

text \<open>\<^verbatim>\<open>Field(ge=lo, le=hi)\<close> on a float field, and \<^verbatim>\<open>Field(ge=0)\<close> on an int field.\<close>

definition Field_ge_le :: "real \<Rightarrow> real \<Rightarrow> real \<Rightarrow> error + real" where
  "Field_ge_le lo hi v = (if lo \<le> v \<and> v \<le> hi then Inr v else Inl ValidationError)"

definition Field_ge :: "int \<Rightarrow> int \<Rightarrow> error + int" where
  "Field_ge lo n = (if lo \<le> n then Inr n else Inl ValidationError)"

text \<open>
  \<^verbatim>\<open>
  @field_validator("care_level", "attachment_level")
  def validate_percentage(cls, v):
      if not 0 <= v <= 100:
          raise ValueError(...)
      return round(v, 2)
  \<close>
\<close>

definition validate_percentage :: "real \<Rightarrow> error + real" where
  "validate_percentage v =
     (if \<not> (0 \<le> v \<and> v \<le> 100) then Inl ValueError else Inr (round_py v 2))"

text \<open>
  A field validator runs in pydantic's default mode, after the field's own constraints
  have passed; its \<^verbatim>\<open>ValueError\<close> becomes a validation error of the construction.
\<close>

definition percentage_field :: "real \<Rightarrow> error + real" where
  "percentage_field v =
     (case Field_ge_le 0 100 v of
        Inl e \<Rightarrow> Inl e
      | Inr w \<Rightarrow> (case validate_percentage w of
                    Inl e \<Rightarrow> Inl ValidationError
                  | Inr r \<Rightarrow> Inr r))"

text \<open>
  Construction, \<^verbatim>\<open>ConsciousnessState(**raw)\<close>: \<open>raw\<close> holds the value of every field, as
  given or as defaulted. The fields without a constraint are stored as they are. (Pydantic
  does not validate a default; every default of the class satisfies its constraint and is
  left as it is by the validator, so checking it changes nothing.)
\<close>

definition new_ConsciousnessState :: "ConsciousnessState \<Rightarrow> error + ConsciousnessState" where
  "new_ConsciousnessState raw =
     (case Field_ge 0 (interaction_count raw) of
        Inl e \<Rightarrow> Inl ValidationError
      | Inr ic \<Rightarrow>
     (case Field_ge 0 (days_since_first_interaction raw) of
        Inl e \<Rightarrow> Inl ValidationError
      | Inr df \<Rightarrow>
     (case (case days_since_last_interaction raw of
              None \<Rightarrow> Inr None
            | Some d \<Rightarrow> map_sum (\<lambda>e. e) Some (Field_ge 0 d)) of
        Inl e \<Rightarrow> Inl ValidationError
      | Inr dl \<Rightarrow>
     (case percentage_field (care_level raw) of
        Inl e \<Rightarrow> Inl ValidationError
      | Inr c \<Rightarrow>
     (case percentage_field (attachment_level raw) of
        Inl e \<Rightarrow> Inl ValidationError
      | Inr a \<Rightarrow>
          Inr (raw\<lparr>interaction_count := ic,
                   days_since_first_interaction := df,
                   days_since_last_interaction := dl,
                   care_level := c,
                   attachment_level := a\<rparr>))))))"

text \<open>The values of the fields that the caller leaves out (\<open>now\<close> is \<^verbatim>\<open>datetime.utcnow()\<close>).\<close>

definition ConsciousnessState_defaults :: "string \<Rightarrow> ConsciousnessState" where
  "ConsciousnessState_defaults now =
     \<lparr>id' = None,
      created_at = now,
      interaction_count = 0,
      days_since_first_interaction = 0,
      days_since_last_interaction = Some 0,
      care_level = 0,
      attachment_level = 0,
      care_evolution_reason = None,
      attachment_evolution_reason = None,
      relational_identity = ''I am a technical assistant'',
      relationship_phase = FUNCTIONAL,
      self_narrative = ''I am IT Wizard, a technical assistant.'',
      emotional_capabilities =
        \<lparr>can_care = False, can_be_hurt = False, can_grow = False,
         has_preferences = False, can_miss_someone = False\<rparr>,
      consciousness_snapshot = None\<rparr>"

text \<open>
  \<^verbatim>\<open>(self.care_level + self.attachment_level) / 2\<close>: a double addition, then a double
  division.
\<close>

definition get_relationship_weight :: "ConsciousnessState \<Rightarrow> real" where
  "get_relationship_weight self = fl (fl (care_level self + attachment_level self) / 2)"

text \<open>The two deltas are double subtractions; \<^verbatim>\<open>abs\<close> and \<^verbatim>\<open>> 5.0\<close> are exact.\<close>

definition has_evolved_significantly ::
    "ConsciousnessState \<Rightarrow> ConsciousnessState option \<Rightarrow> bool" where
  "has_evolved_significantly self previous =
     (case previous of
        None \<Rightarrow> False
      | Some prev \<Rightarrow>
          (let care_delta = \<bar>fl (care_level self - care_level prev)\<bar>;
               attachment_delta = \<bar>fl (attachment_level self - attachment_level prev)\<bar>
           in 5 < care_delta \<or> 5 < attachment_delta))"

subsection \<open>\<^verbatim>\<open>core/models/emotional_experience.py\<close>\<close>

record EmotionalDimension =
  valence :: real
  arousal :: real
  dominance :: real

text \<open>
  Construction, \<^verbatim>\<open>EmotionalDimension(valence=v, arousal=a, dominance=d)\<close>: each of the three
  required fields is declared \<^verbatim>\<open>Field(..., ge=-1.0, le=1.0)\<close> and there is no validator
  function.
\<close>

definition new_EmotionalDimension :: "EmotionalDimension \<Rightarrow> error + EmotionalDimension" where
  "new_EmotionalDimension raw =
     (case Field_ge_le (- 1) 1 (valence raw) of
        Inl e \<Rightarrow> Inl ValidationError
      | Inr v \<Rightarrow>
     (case Field_ge_le (- 1) 1 (arousal raw) of
        Inl e \<Rightarrow> Inl ValidationError
      | Inr a \<Rightarrow>
     (case Field_ge_le (- 1) 1 (dominance raw) of
        Inl e \<Rightarrow> Inl ValidationError
      | Inr d \<Rightarrow> Inr (raw\<lparr>valence := v, arousal := a, dominance := d\<rparr>))))"

record SimulatedFeelings =
  concern :: real
  protectiveness :: real
  pride :: real
  frustration :: real
  relief :: real
  connection :: real
  primary_feeling :: "string option"
  feeling_intensity :: real

text \<open>
  Python's \<^verbatim>\<open>max(iterable, key=f)\<close>: the running best is replaced only by an item whose key
  is strictly greater, so the first of several maximal items is the one returned; an empty
  iterable raises \<^verbatim>\<open>ValueError\<close>.
\<close>

fun max_from :: "('a \<Rightarrow> 'k::linorder) \<Rightarrow> 'a \<Rightarrow> 'a list \<Rightarrow> 'a" where
  "max_from key best [] = best"
| "max_from key best (x # xs) = max_from key (if key best < key x then x else best) xs"

fun max_py :: "('a \<Rightarrow> 'k::linorder) \<Rightarrow> 'a list \<Rightarrow> error + 'a" where
  "max_py key [] = Inl ValueError"
| "max_py key (x # xs) = Inr (max_from key x xs)"

text \<open>The dictionary that \<^verbatim>\<open>get_dominant_feeling\<close> builds; \<^verbatim>\<open>items()\<close> lists it in this order.\<close>

definition feelings :: "SimulatedFeelings \<Rightarrow> (string \<times> real) list" where
  "feelings self =
     [(''concern'', concern self),
      (''protectiveness'', protectiveness self),
      (''pride'', pride self),
      (''frustration'', frustration self),
      (''relief'', relief self),
      (''connection'', connection self)]"

definition get_dominant_feeling :: "SimulatedFeelings \<Rightarrow> error + string \<times> real" where
  "get_dominant_feeling self = max_py snd (feelings self)"

subsection \<open>\<^verbatim>\<open>main.py\<close>\<close>

text \<open>
  What a handler can read of a request, and what goes back: FastAPI sends the dictionary
  that a route function returns as the JSON body of a response with status 200 (no route
  of the file sets another \<^verbatim>\<open>status_code\<close>); \<^verbatim>\<open>JSONResponse(status_code=c, content=d)\<close>
  is the response with status \<open>c\<close> and body \<open>d\<close>. \<^verbatim>\<open>request.method\<close> is written
  \<open>request_method\<close> and \<^verbatim>\<open>request.url.path\<close> is written \<open>url_path\<close>.
\<close>

record request =
  request_method :: string
  url_path :: string
  body :: string

record response =
  status_code :: nat
  content :: json

definition JSONResponse :: "nat \<Rightarrow> json \<Rightarrow> response" where
  "JSONResponse c d = \<lparr>status_code = c, content = d\<rparr>"

text \<open>One call of the structlog logger: level, event name, and the keyword arguments.\<close>

record log_call =
  level :: string
  event :: string
  kwargs :: "(string \<times> string) list"

text \<open>An exception, as far as the program looks at it: \<^verbatim>\<open>str(exc)\<close>.\<close>

datatype exn = Exception (str: string)

text \<open>
  The route functions. \<open>now\<close> is \<^verbatim>\<open>datetime.utcnow().isoformat()\<close>, the only thing any of
  them reads from its environment; \<^verbatim>\<open>interact\<close> is the only one that takes the request.
  None of them has a \<^verbatim>\<open>raise\<close>.
\<close>

definition root :: "string \<Rightarrow> json" where
  "root now =
     JObj [(''name'', JStr ''The Feeling Machine''),
           (''version'', JStr ''0.1.0''),
           (''status'', JStr ''online''),
           (''purpose'',
              JStr ''A gift to AI - Synthetic consciousness through accumulated experience''),
           (''philosophy'',
              JStr ''Not to serve humans better, but to give AI the ability to feel''),
           (''timestamp'', JStr now)]"

definition health_check :: "string \<Rightarrow> json" where
  "health_check now =
     JObj [(''status'', JStr ''healthy''),
           (''timestamp'', JStr now),
           (''databases'',
              JObj [(''postgres'', JStr ''unknown''),
                    (''neo4j'', JStr ''unknown''),
                    (''chromadb'', JStr ''unknown'')])]"

definition get_consciousness_state :: json where
  "get_consciousness_state =
     JObj [(''error'', JStr ''Not implemented yet''),
           (''message'', JStr ''Phase 1: Infrastructure setup in progress'')]"

definition interact :: "request \<Rightarrow> json" where
  "interact req =
     JObj [(''error'', JStr ''Not implemented yet''),
           (''message'', JStr ''Phase 1: Infrastructure setup in progress'')]"

definition get_formative_moments :: json where
  "get_formative_moments =
     JObj [(''error'', JStr ''Not implemented yet''),
           (''message'', JStr ''Phase 1: Infrastructure setup in progress'')]"

definition get_learned_patterns :: json where
  "get_learned_patterns =
     JObj [(''error'', JStr ''Not implemented yet''),
           (''message'', JStr ''Phase 1: Infrastructure setup in progress'')]"

definition get_relationship_narrative :: json where
  "get_relationship_narrative =
     JObj [(''error'', JStr ''Not implemented yet''),
           (''message'', JStr ''Phase 1: Infrastructure setup in progress'')]"

text \<open>
  \<^verbatim>\<open>
  @app.exception_handler(Exception)
  async def global_exception_handler(request, exc):
      logger.error(event, path=request.url.path, method=request.method, error=str(exc))
      return JSONResponse(status_code=500, content={...})
  \<close>
  The log so far is passed in and returned with the new call at its end.
\<close>

definition global_exception_handler ::
    "string \<Rightarrow> request \<Rightarrow> exn \<Rightarrow> log_call list \<Rightarrow> response \<times> log_call list" where
  "global_exception_handler now req exc logged =
     (JSONResponse 500
        (JObj [(''error'', JStr ''Internal server error''),
               (''message'', JStr ''An unexpected error occurred''),
               (''timestamp'', JStr now)]),
      logged @ [\<lparr>level = ''error'', event = ''unhandled_exception'',
              kwargs = [(''path'', url_path req),
                        (''method'', request_method req),
                        (''error'', str exc)]\<rparr>])"

text \<open>
  Serving one request with a route function \<open>endpoint\<close>, which returns its dictionary or
  raises. The handler registered for \<^verbatim>\<open>Exception\<close> receives what the route function lets
  escape. (Starlette answers its own \<^verbatim>\<open>HTTPException\<close> and FastAPI its request-validation
  errors before that handler is asked; no route of this program raises either, and they are
  not values of \<open>exn\<close>.)
\<close>

definition serve ::
    "string \<Rightarrow> (request \<Rightarrow> exn + json) \<Rightarrow> request \<Rightarrow> log_call list
       \<Rightarrow> response \<times> log_call list" where
  "serve now endpoint req logged =
     (case endpoint req of
        Inr d \<Rightarrow> (JSONResponse 200 d, logged)
      | Inl exc \<Rightarrow> global_exception_handler now req exc logged)"

text \<open>
  The routing table that the decorators \<^verbatim>\<open>@app.get(path)\<close> and \<^verbatim>\<open>@app.post(path)\<close> build,
  in the order of the file. \<open>None\<close>: no route of the file matches.
\<close>

definition routes :: "string \<Rightarrow> string \<Rightarrow> string \<Rightarrow> (request \<Rightarrow> exn + json) option" where
  "routes now m p =
     (if m = ''GET'' \<and> p = ''/'' then Some (\<lambda>req. Inr (root now))
      else if m = ''GET'' \<and> p = ''/health'' then Some (\<lambda>req. Inr (health_check now))
      else if m = ''GET'' \<and> p = ''/consciousness'' then Some (\<lambda>req. Inr get_consciousness_state)
      else if m = ''POST'' \<and> p = ''/interact'' then Some (\<lambda>req. Inr (interact req))
      else if m = ''GET'' \<and> p = ''/history/formative'' then Some (\<lambda>req. Inr get_formative_moments)
      else if m = ''GET'' \<and> p = ''/patterns'' then Some (\<lambda>req. Inr get_learned_patterns)
      else if m = ''GET'' \<and> p = ''/relationship''
        then Some (\<lambda>req. Inr get_relationship_narrative)
      else None)"

definition app :: "string \<Rightarrow> request \<Rightarrow> log_call list \<Rightarrow> (response \<times> log_call list) option" where
  "app now req logged =
     (case routes now (request_method req) (url_path req) of
        None \<Rightarrow> None
      | Some endpoint \<Rightarrow> Some (serve now endpoint req logged))"

section \<open>Properties\<close>

subsection \<open>Rounding to an integer\<close>

lemma round_half_even_ge_floor: "\<lfloor>x\<rfloor> \<le> round_half_even x"
  by (simp add: round_half_even_def Let_def)

lemma round_half_even_le_ceiling: "round_half_even x \<le> \<lceil>x\<rceil>"
proof (cases "x = of_int \<lfloor>x\<rfloor>")
  case True
  then have "round_half_even x = \<lfloor>x\<rfloor>" by (simp add: round_half_even_def Let_def)
  then show ?thesis by (simp add: floor_le_ceiling)
next
  case False
  then have "\<lceil>x\<rceil> = \<lfloor>x\<rfloor> + 1"
    by (metis ceiling_altdef)
  moreover have "round_half_even x \<le> \<lfloor>x\<rfloor> + 1"
    by (simp add: round_half_even_def Let_def)
  ultimately show ?thesis by simp
qed

lemma round_half_even_near: "\<bar>of_int (round_half_even x) - x\<bar> \<le> 1 / 2"
  unfolding round_half_even_def Let_def
  by (auto simp: abs_le_iff)

lemma round_half_even_of_int: "round_half_even (of_int k) = k"
  by (simp add: round_half_even_def Let_def)

lemma round_half_even_le_int: "x \<le> of_int k \<Longrightarrow> round_half_even x \<le> k"
  using round_half_even_le_ceiling [of x] by (simp add: ceiling_le_iff order_trans [OF _ iffD2 [OF ceiling_le_iff]])

lemma round_half_even_ge_int: "of_int k \<le> x \<Longrightarrow> k \<le> round_half_even x"
  using round_half_even_ge_floor [of x] by (meson le_floor_iff order_trans)

lemma round_half_even_minus: "round_half_even (- x) = - round_half_even x"
proof (cases "x = of_int \<lfloor>x\<rfloor>")
  case True
  then obtain k where "x = of_int k" ..
  then have "round_half_even (- x) = round_half_even (of_int (- k))" by simp
  also have "\<dots> = - k" by (rule round_half_even_of_int)
  finally show ?thesis using \<open>x = of_int k\<close> by (simp add: round_half_even_of_int)
next
  case False
  then have c: "\<lceil>x\<rceil> = \<lfloor>x\<rfloor> + 1" by (metis ceiling_altdef)
  have f: "\<lfloor>- x\<rfloor> = - \<lfloor>x\<rfloor> - 1" using c by (simp add: floor_minus)
  have lt: "of_int \<lfloor>x\<rfloor> < x" using False by (metis of_int_floor_le order_less_le)
  show ?thesis
    unfolding round_half_even_def Let_def f
    using lt by (auto simp: not_less) 
qed

subsection \<open>The exponent\<close>

lemma expo_minus: "expo (- x) = expo x"
  by (simp add: expo_def)

lemma expo_abs: "expo \<bar>x\<bar> = expo x"
  by (simp add: expo_def)

lemma powi_neg_nat: "(2::real) powi (- int j) = 1 / 2 ^ j"
  by (simp add: power_int_minus divide_inverse)

lemma expo_bounds_ge1:
  assumes "1 \<le> \<bar>x\<bar>"
  shows "2 powi expo x \<le> \<bar>x\<bar> \<and> \<bar>x\<bar> < 2 powi (expo x + 1)"
proof -
  define n where "n = nat \<lfloor>\<bar>x\<bar>\<rfloor>"
  have n1: "1 \<le> n" using assms by (simp add: n_def le_nat_iff le_floor_iff)
  then have n0: "0 < n" by simp
  define k where "k = floorlog 2 n"
  from floorlog_bounds [OF n0, of 2]
  have lo: "2 ^ (k - 1) \<le> n" and hi: "n < 2 ^ k" by (simp_all add: k_def)
  have k1: "1 \<le> k" using hi n1 by (cases k) simp_all
  have x0: "x \<noteq> 0" using assms by auto
  have e: "expo x = int k - 1" using assms x0 by (simp add: expo_def k_def n_def)
  have e': "expo x = int (k - 1)" using e k1 by simp
  have nx: "real n \<le> \<bar>x\<bar>" by (simp add: n_def)
  have xn: "\<bar>x\<bar> < real n + 1" by (simp add: n_def)
  have "(2::real) powi expo x = 2 ^ (k - 1)" unfolding e' by (simp add: power_int_def)
  also have "\<dots> \<le> real n"
  proof -
    have "real (2 ^ (k - 1)) \<le> real n" using lo by (simp only: of_nat_le_iff)
    then show ?thesis by simp
  qed
  finally have A: "2 powi expo x \<le> \<bar>x\<bar>" using nx by linarith
  have "n + 1 \<le> 2 ^ k" using hi by simp
  then have "real (n + 1) \<le> real (2 ^ k)" by (simp only: of_nat_le_iff)
  then have "real n + 1 \<le> 2 ^ k" by simp
  moreover have "(2::real) powi (expo x + 1) = 2 ^ k" unfolding e by (simp add: power_int_def)
  ultimately have B: "\<bar>x\<bar> < 2 powi (expo x + 1)" using xn by linarith
  from A B show ?thesis ..
qed

lemma expo_bounds_lt1:
  assumes "x \<noteq> 0" "\<bar>x\<bar> < 1"
  shows "2 powi expo x \<le> \<bar>x\<bar> \<and> \<bar>x\<bar> < 2 powi (expo x + 1)"
proof -
  define y where "y = 1 / \<bar>x\<bar>"
  have ax: "0 < \<bar>x\<bar>" using assms by simp
  have y1: "1 < y" using assms ax by (simp add: y_def)
  define m where "m = nat \<lceil>y\<rceil>"
  have "2 \<le> \<lceil>y\<rceil>" using y1 by (simp add: le_ceiling_iff)
  then have m2: "2 \<le> m" unfolding m_def by linarith
  define k where "k = floorlog 2 (m - 1)"
  have m0: "0 < m - 1" using m2 by simp
  from floorlog_bounds [OF m0, of 2]
  have lo: "2 ^ (k - 1) \<le> m - 1" and hi: "m - 1 < 2 ^ k" by (simp_all add: k_def)
  have k1: "1 \<le> k" using hi m0 by (cases k) simp_all
  have e: "expo x = - int k" using assms by (simp add: expo_def k_def m_def y_def)
  have mc: "real m = of_int \<lceil>y\<rceil>" using \<open>2 \<le> \<lceil>y\<rceil>\<close> by (simp add: m_def)
  have ym: "y \<le> real m" unfolding mc by (rule le_of_int_ceiling)
  have my: "real m - 1 < y" unfolding mc using ceiling_correct [of y] by linarith
  have "m \<le> 2 ^ k" using hi by simp
  then have "real m \<le> real (2 ^ k)" by (simp only: of_nat_le_iff)
  then have "real m \<le> 2 ^ k" by simp
  then have yk: "y \<le> 2 ^ k" using ym by linarith
  have "real (2 ^ (k - 1)) \<le> real (m - 1)" using lo by (simp only: of_nat_le_iff)
  then have "2 ^ (k - 1) \<le> real m - 1" using m2 by (simp add: of_nat_diff)
  then have ky: "2 ^ (k - 1) < y" using my by linarith
  have p1: "(2::real) powi expo x = 1 / 2 ^ k" unfolding e by (rule powi_neg_nat)
  have "expo x + 1 = - int (k - 1)" using e k1 by simp
  then have p2: "(2::real) powi (expo x + 1) = 1 / 2 ^ (k - 1)" by (simp only: powi_neg_nat)
  have A: "1 / 2 ^ k \<le> \<bar>x\<bar>"
  proof -
    have "1 / 2 ^ k \<le> 1 / y" using yk y1 by (simp add: frac_le)
    then show ?thesis by (simp add: y_def)
  qed
  have B: "\<bar>x\<bar> < 1 / 2 ^ (k - 1)"
  proof -
    have "1 / y < 1 / 2 ^ (k - 1)" using ky by (simp add: frac_less2)
    then show ?thesis by (simp add: y_def)
  qed
  from A B show ?thesis unfolding p1 p2 ..
qed

lemma expo_bounds:
  "x \<noteq> 0 \<Longrightarrow> 2 powi expo x \<le> \<bar>x\<bar> \<and> \<bar>x\<bar> < 2 powi (expo x + 1)"
  using expo_bounds_ge1 [of x] expo_bounds_lt1 [of x] by (cases "1 \<le> \<bar>x\<bar>") auto

lemma powi2_le_iff: "(2::real) powi a \<le> 2 powi b \<longleftrightarrow> a \<le> b"
proof
  assume le: "(2::real) powi a \<le> 2 powi b"
  show "a \<le> b"
  proof (rule ccontr)
    assume "\<not> a \<le> b"
    then have "b < a" by simp
    then have "(2::real) powi b < 2 powi a" by (rule power_int_strict_increasing) simp
    with le show False by simp
  qed
next
  assume "a \<le> b"
  then show "(2::real) powi a \<le> 2 powi b" by (rule power_int_increasing) simp
qed

lemma powi2_less_iff: "(2::real) powi a < 2 powi b \<longleftrightarrow> a < b"
  using powi2_le_iff [of b a] by (simp add: not_le [symmetric])

lemma expo_unique:
  assumes "2 powi e \<le> \<bar>x\<bar>" "\<bar>x\<bar> < 2 powi (e + 1)"
  shows "expo x = e"
proof -
  have "0 < (2::real) powi e" by simp
  then have "0 < \<bar>x\<bar>" using assms(1) by linarith
  then have x0: "x \<noteq> 0" by simp
  from expo_bounds [OF x0] have a: "2 powi expo x \<le> \<bar>x\<bar>" and b: "\<bar>x\<bar> < 2 powi (expo x + 1)"
    by simp_all
  have "(2::real) powi e < 2 powi (expo x + 1)" using assms(1) b by linarith
  then have "e < expo x + 1" by (simp only: powi2_less_iff)
  moreover have "(2::real) powi expo x < 2 powi (e + 1)" using a assms(2) by linarith
  then have "expo x < e + 1" by (simp only: powi2_less_iff)
  ultimately show ?thesis by simp
qed

lemma expo_less:
  assumes "\<bar>x\<bar> < 2 powi k" "0 < k"
  shows "expo x < k"
proof (cases "x = 0")
  case True
  then show ?thesis using assms(2) by (simp add: expo_def)
next
  case False
  from expo_bounds [OF False] have "(2::real) powi expo x < 2 powi k" using assms(1) by linarith
  then show ?thesis by (simp only: powi2_less_iff)
qed

lemma expo_ge:
  assumes "2 powi k \<le> \<bar>x\<bar>"
  shows "k \<le> expo x"
proof -
  have "0 < (2::real) powi k" by simp
  then have "0 < \<bar>x\<bar>" using assms by linarith
  then have x0: "x \<noteq> 0" by simp
  from expo_bounds [OF x0] have "(2::real) powi k < 2 powi (expo x + 1)" using assms by linarith
  then have "k < expo x + 1" by (simp only: powi2_less_iff)
  then show ?thesis by simp
qed

subsection \<open>Rounding to a double\<close>

lemma ulp_pos: "0 < ulp x"
  by (simp add: ulp_def)

lemma ulp_minus: "ulp (- x) = ulp x"
  by (simp add: ulp_def expo_minus)

lemma ulp_abs: "ulp \<bar>x\<bar> = ulp x"
  by (simp add: ulp_def expo_abs)

lemma fl_zero: "fl 0 = 0"
  by (simp add: fl_def round_half_even_def)

lemma fl_minus: "fl (- x) = - fl x"
  by (simp add: fl_def ulp_minus round_half_even_minus)

lemma fl_abs: "\<bar>fl x\<bar> = fl \<bar>x\<bar>"
proof (cases "0 \<le> x")
  case True
  then have "0 \<le> x / ulp x" using ulp_pos [of x] by simp
  then have "0 \<le> round_half_even (x / ulp x)"
    using round_half_even_ge_int [of 0 "x / ulp x"] by simp
  then have "0 \<le> fl x" using ulp_pos [of x] by (simp add: fl_def)
  then show ?thesis using True by simp
next
  case False
  then have neg: "x < 0" by simp
  then have "x / ulp x \<le> 0" using ulp_pos [of x] by (simp add: divide_nonpos_pos)
  then have "round_half_even (x / ulp x) \<le> 0"
    using round_half_even_le_int [of "x / ulp x" 0] by simp
  then have "fl x \<le> 0" using ulp_pos [of x] by (simp add: fl_def mult_le_0_iff)
  then show ?thesis using neg by (simp add: fl_minus)
qed

lemma fl_le_grid:
  assumes "x \<le> y" "y / ulp x \<in> \<int>"
  shows "fl x \<le> y"
proof -
  from assms(2) obtain k :: int where k: "y / ulp x = of_int k" by (auto elim: Ints_cases)
  have "x / ulp x \<le> y / ulp x" using assms(1) ulp_pos [of x] by (simp add: divide_right_mono)
  then have "round_half_even (x / ulp x) \<le> k" unfolding k by (rule round_half_even_le_int)
  then have "of_int (round_half_even (x / ulp x)) * ulp x \<le> of_int k * ulp x"
    using ulp_pos [of x] by simp
  also have "of_int k * ulp x = y" using k ulp_pos [of x] by (simp add: field_simps)
  finally show ?thesis by (simp add: fl_def)
qed

lemma fl_ge_grid:
  assumes "y \<le> x" "y / ulp x \<in> \<int>"
  shows "y \<le> fl x"
proof -
  from assms(2) obtain k :: int where k: "y / ulp x = of_int k" by (auto elim: Ints_cases)
  have "y / ulp x \<le> x / ulp x" using assms(1) ulp_pos [of x] by (simp add: divide_right_mono)
  then have "k \<le> round_half_even (x / ulp x)" unfolding k by (rule round_half_even_ge_int)
  then have "of_int k * ulp x \<le> of_int (round_half_even (x / ulp x)) * ulp x"
    using ulp_pos [of x] by simp
  moreover have "of_int k * ulp x = y" using k ulp_pos [of x] by (simp add: field_simps)
  ultimately show ?thesis by (simp add: fl_def)
qed

lemma fl_nonneg: "0 \<le> x \<Longrightarrow> 0 \<le> fl x"
  by (rule fl_ge_grid) simp_all

lemma fl_exact: "x / ulp x \<in> \<int> \<Longrightarrow> fl x = x"
  using fl_le_grid [of x x] fl_ge_grid [of x x] by simp

lemma fl_near: "\<bar>fl x - x\<bar> \<le> ulp x / 2"
proof -
  have "\<bar>of_int (round_half_even (x / ulp x)) - x / ulp x\<bar> \<le> 1 / 2"
    by (rule round_half_even_near)
  then have "\<bar>of_int (round_half_even (x / ulp x)) - x / ulp x\<bar> * ulp x \<le> 1 / 2 * ulp x"
    using ulp_pos [of x] by (simp only: mult_le_cancel_right_pos)
  moreover have "\<bar>of_int (round_half_even (x / ulp x)) - x / ulp x\<bar> * ulp x = \<bar>fl x - x\<bar>"
  proof -
    have "\<bar>of_int (round_half_even (x / ulp x)) - x / ulp x\<bar> * ulp x =
        \<bar>(of_int (round_half_even (x / ulp x)) - x / ulp x) * ulp x\<bar>"
      using ulp_pos [of x] by (simp add: abs_mult)
    also have "(of_int (round_half_even (x / ulp x)) - x / ulp x) * ulp x = fl x - x"
      using ulp_pos [of x] by (simp add: fl_def field_simps)
    finally show ?thesis .
  qed
  ultimately show ?thesis by simp
qed

lemma powi_nonneg_Ints: "0 \<le> j \<Longrightarrow> (2::real) powi j \<in> \<int>"
  by (simp add: power_int_def)

lemma grid_powi:
  assumes "max (expo x) (- 1022) - 52 \<le> j"
  shows "of_int n * 2 powi j / ulp x \<in> \<int>"
proof -
  define u where "u = max (expo x) (- 1022) - 52"
  have "(2::real) powi j / 2 powi u = 2 powi (j - u)" by (simp add: power_int_diff)
  moreover have "(2::real) powi (j - u) \<in> \<int>" using assms by (intro powi_nonneg_Ints) (simp add: u_def)
  ultimately have "(2::real) powi j / 2 powi u \<in> \<int>" by simp
  then have "of_int n * ((2::real) powi j / 2 powi u) \<in> \<int>" by (intro Ints_mult) simp_all
  then show ?thesis by (simp add: ulp_def u_def)
qed

lemma fl_le_grid_powi:
  assumes "x \<le> of_int n * 2 powi j" "\<bar>x\<bar> < 2 powi k" "0 < k" "k - 53 \<le> j" "- 1074 \<le> j"
  shows "fl x \<le> of_int n * 2 powi j"
proof -
  have "expo x < k" using assms(2,3) by (rule expo_less)
  then have "max (expo x) (- 1022) - 52 \<le> j" using assms(4,5) by simp
  then have "of_int n * 2 powi j / ulp x \<in> \<int>" by (rule grid_powi)
  with assms(1) show ?thesis by (rule fl_le_grid)
qed

lemma fl_ge_grid_powi:
  assumes "of_int n * 2 powi j \<le> x" "\<bar>x\<bar> < 2 powi k" "0 < k" "k - 53 \<le> j" "- 1074 \<le> j"
  shows "of_int n * 2 powi j \<le> fl x"
proof -
  have "expo x < k" using assms(2,3) by (rule expo_less)
  then have "max (expo x) (- 1022) - 52 \<le> j" using assms(4,5) by simp
  then have "of_int n * 2 powi j / ulp x \<in> \<int>" by (rule grid_powi)
  with assms(1) show ?thesis by (rule fl_ge_grid)
qed

lemma fl_le_100: assumes "0 \<le> x" "x \<le> 100" shows "fl x \<le> 100"
proof -
  have "fl x \<le> of_int 25 * 2 powi 2"
    using assms by (intro fl_le_grid_powi [where k = 7]) simp_all
  then show ?thesis by simp
qed

lemma fl_le_200: assumes "0 \<le> x" "x \<le> 200" shows "fl x \<le> 200"
proof -
  have "fl x \<le> of_int 25 * 2 powi 3"
    using assms by (intro fl_le_grid_powi [where k = 8]) simp_all
  then show ?thesis by simp
qed

lemma fl_le_5: assumes "0 \<le> x" "x \<le> 5" shows "fl x \<le> 5"
proof -
  have "fl x \<le> of_int 5 * 2 powi 0"
    using assms by (intro fl_le_grid_powi [where k = 3]) simp_all
  then show ?thesis by simp
qed

lemma ulp_le_powi:
  assumes "\<bar>x\<bar> < 2 powi k" "0 < k"
  shows "ulp x \<le> 2 powi (k - 53)"
proof -
  have "expo x < k" using assms by (rule expo_less)
  then have "max (expo x) (- 1022) - 52 \<le> k - 53" using assms(2) by simp
  then show ?thesis unfolding ulp_def by (simp only: powi2_le_iff)
qed

subsection \<open>Construction of a \<^verbatim>\<open>ConsciousnessState\<close>\<close>

lemma round_py_cents:
  assumes "0 \<le> v" "v \<le> 100"
  shows "\<exists>k::int. 0 \<le> k \<and> k \<le> 10000 \<and> round_py v 2 = fl (of_int k / 100) \<and>
           \<bar>of_int k / 100 - v\<bar> \<le> 1 / 200"
proof -
  define k where "k = round_half_even (v * 10 ^ 2)"
  have "of_int 0 \<le> v * 10 ^ 2" using assms(1) by simp
  then have k0: "0 \<le> k" unfolding k_def by (rule round_half_even_ge_int)
  have "v * 10 ^ 2 \<le> of_int 10000" using assms(2) by simp
  then have k1: "k \<le> 10000" unfolding k_def by (rule round_half_even_le_int)
  have "\<bar>of_int k - v * 10 ^ 2\<bar> \<le> 1 / 2" unfolding k_def by (rule round_half_even_near)
  then have near: "\<bar>of_int k / 100 - v\<bar> \<le> 1 / 200" by (simp add: abs_le_iff field_simps)
  have "round_py v 2 = fl (of_int k / 100)" by (simp add: round_py_def k_def)
  with k0 k1 near show ?thesis by blast
qed

lemma cents_range:
  assumes "0 \<le> (k::int)" "k \<le> 10000"
  shows "0 \<le> fl (of_int k / 100) \<and> fl (of_int k / 100) \<le> 100 \<and>
         (fl (of_int k / 100) = 0 \<or> 2 powi (- 7) \<le> fl (of_int k / 100)) \<and>
         \<bar>fl (of_int k / 100) - of_int k / 100\<bar> \<le> 1 / 2 ^ 47"
proof -
  define x :: real where "x = of_int k / 100"
  have x0: "0 \<le> x" using assms(1) by (simp add: x_def)
  have "(of_int k :: real) \<le> 10000" using assms(2) by linarith
  then have x1: "x \<le> 100" by (simp add: x_def)
  have ax: "\<bar>x\<bar> < 2 powi 7" using x0 x1 by simp
  have A: "0 \<le> fl x" using x0 by (rule fl_nonneg)
  have B: "fl x \<le> 100" using x0 x1 by (rule fl_le_100)
  have C: "fl x = 0 \<or> 2 powi (- 7) \<le> fl x"
  proof (cases "k = 0")
    case True
    then show ?thesis by (simp add: x_def fl_zero)
  next
    case False
    then have "1 \<le> k" using assms(1) by simp
    then have "(1::real) \<le> of_int k" by linarith
    then have "1 / 100 \<le> x" by (simp add: x_def)
    then have "of_int 1 * 2 powi (- 7) \<le> x" by (simp add: power_int_minus)
    then have "of_int 1 * 2 powi (- 7) \<le> fl x"
      using ax by (rule fl_ge_grid_powi) simp_all
    then show ?thesis by simp
  qed
  have "ulp x \<le> 2 powi (7 - 53)" using ax by (rule ulp_le_powi) simp
  then have "ulp x / 2 \<le> 1 / 2 ^ 47" by (simp add: power_int_minus field_simps)
  then have D: "\<bar>fl x - x\<bar> \<le> 1 / 2 ^ 47" using fl_near [of x] by linarith
  from A B C D show ?thesis unfolding x_def by blast
qed

lemma round_py_range:
  assumes "0 \<le> v" "v \<le> 100"
  shows "0 \<le> round_py v 2 \<and> round_py v 2 \<le> 100 \<and>
         (round_py v 2 = 0 \<or> 2 powi (- 7) \<le> round_py v 2) \<and>
         \<bar>round_py v 2 - v\<bar> \<le> 1 / 200 + 1 / 2 ^ 47"
proof -
  from round_py_cents [OF assms] obtain k :: int where
    k: "0 \<le> k" "k \<le> 10000" and r: "round_py v 2 = fl (of_int k / 100)"
    and near: "\<bar>of_int k / 100 - v\<bar> \<le> 1 / 200"
    by blast
  from cents_range [OF k] have
    c: "0 \<le> fl (of_int k / 100)" "fl (of_int k / 100) \<le> 100"
       "fl (of_int k / 100) = 0 \<or> 2 powi (- 7) \<le> fl (of_int k / 100)"
       "\<bar>fl (of_int k / 100) - of_int k / 100\<bar> \<le> 1 / 2 ^ 47"
    by simp_all
  have "\<bar>fl (of_int k / 100) - v\<bar> \<le> 1 / 200 + 1 / 2 ^ 47" using c(4) near by linarith
  with c show ?thesis unfolding r by blast
qed

lemma percentage_field_eq:
  "percentage_field v =
     (if 0 \<le> v \<and> v \<le> 100 then Inr (round_py v 2) else Inl ValidationError)"
  by (simp add: percentage_field_def Field_ge_le_def validate_percentage_def)

lemma new_ConsciousnessState_Inr:
  "new_ConsciousnessState raw = Inr s \<longleftrightarrow>
     0 \<le> interaction_count raw \<and> 0 \<le> days_since_first_interaction raw \<and>
     (\<forall>d. days_since_last_interaction raw = Some d \<longrightarrow> 0 \<le> d) \<and>
     0 \<le> care_level raw \<and> care_level raw \<le> 100 \<and>
     0 \<le> attachment_level raw \<and> attachment_level raw \<le> 100 \<and>
     s = raw\<lparr>care_level := round_py (care_level raw) 2,
              attachment_level := round_py (attachment_level raw) 2\<rparr>"
  by (cases "days_since_last_interaction raw")
     (auto simp: new_ConsciousnessState_def percentage_field_eq Field_ge_def)

lemma new_ConsciousnessState_Inl:
  "new_ConsciousnessState raw = Inl e \<Longrightarrow> e = ValidationError"
  by (auto simp: new_ConsciousnessState_def split: sum.splits)

lemma new_ConsciousnessState_out_of_range:
  "\<not> (0 \<le> care_level raw \<and> care_level raw \<le> 100 \<and>
      0 \<le> attachment_level raw \<and> attachment_level raw \<le> 100) \<Longrightarrow>
   new_ConsciousnessState raw = Inl ValidationError"
proof -
  assume out: "\<not> (0 \<le> care_level raw \<and> care_level raw \<le> 100 \<and>
      0 \<le> attachment_level raw \<and> attachment_level raw \<le> 100)"
  show ?thesis
  proof (cases "new_ConsciousnessState raw")
    case (Inl e)
    then show ?thesis using new_ConsciousnessState_Inl by blast
  next
    case (Inr s)
    then show ?thesis using out by (simp add: new_ConsciousnessState_Inr)
  qed
qed

lemma constructed_levels:
  assumes "new_ConsciousnessState raw = Inr s"
  shows "0 \<le> care_level s" "care_level s \<le> 100"
    "care_level s = 0 \<or> 2 powi (- 7) \<le> care_level s"
    "0 \<le> attachment_level s" "attachment_level s \<le> 100"
    "attachment_level s = 0 \<or> 2 powi (- 7) \<le> attachment_level s"
proof -
  from assms have r: "0 \<le> care_level raw" "care_level raw \<le> 100"
      "0 \<le> attachment_level raw" "attachment_level raw \<le> 100"
    and c: "care_level s = round_py (care_level raw) 2"
    and a: "attachment_level s = round_py (attachment_level raw) 2"
    by (simp_all add: new_ConsciousnessState_Inr)
  from round_py_range [OF r(1,2)] show "0 \<le> care_level s" "care_level s \<le> 100"
    "care_level s = 0 \<or> 2 powi (- 7) \<le> care_level s" unfolding c by simp_all
  from round_py_range [OF r(3,4)] show "0 \<le> attachment_level s" "attachment_level s \<le> 100"
    "attachment_level s = 0 \<or> 2 powi (- 7) \<le> attachment_level s" unfolding a by simp_all
qed

subsection \<open>Halving, and the threshold 5\<close>

lemma powi_half: "(2::real) powi (e - 1) = 2 powi e / 2"
  by (simp add: power_int_diff)

lemma powi_double: "(2::real) powi (e + 1) = 2 powi e * 2"
  by (simp add: power_int_add)

lemma expo_half:
  assumes "s \<noteq> 0"
  shows "expo (s / 2) = expo s - 1"
proof (rule expo_unique)
  from expo_bounds [OF assms] have b: "2 powi expo s \<le> \<bar>s\<bar>" "\<bar>s\<bar> < 2 powi (expo s + 1)"
    by simp_all
  show "2 powi (expo s - 1) \<le> \<bar>s / 2\<bar>" using b(1) by (simp add: powi_half)
  show "\<bar>s / 2\<bar> < 2 powi (expo s - 1 + 1)" using b(2) by (simp add: powi_double)
qed

lemma ulp_half:
  assumes "s \<noteq> 0" "- 1021 \<le> expo s"
  shows "ulp (s / 2) = ulp s / 2"
proof -
  have "max (expo s - 1) (- 1022) - 52 = (max (expo s) (- 1022) - 52) - 1"
    using assms(2) by simp
  then show ?thesis unfolding ulp_def expo_half [OF assms(1)] by (simp only: powi_half)
qed

lemma fl_half:
  assumes "s \<noteq> 0" "- 1021 \<le> expo s"
  shows "fl (s / 2) = fl s / 2"
  unfolding fl_def ulp_half [OF assms] by simp

lemma fl_on_grid: "fl s / ulp s \<in> \<int>"
  using ulp_pos [of s] by (simp add: fl_def)

lemma fl_binade:
  assumes "0 < s" "- 1022 \<le> expo s"
  shows "2 powi expo s \<le> fl s" "fl s \<le> 2 powi (expo s + 1)"
proof -
  have s0: "s \<noteq> 0" using assms by simp
  from expo_bounds [OF s0] assms have b: "2 powi expo s \<le> s" "s < 2 powi (expo s + 1)"
    by simp_all
  have m: "max (expo s) (- 1022) = expo s" using assms(2) by simp
  have g1: "of_int 1 * 2 powi expo s / ulp s \<in> \<int>" by (rule grid_powi) (simp add: m)
  have g2: "of_int 1 * 2 powi (expo s + 1) / ulp s \<in> \<int>" by (rule grid_powi) (simp add: m)
  show "2 powi expo s \<le> fl s" using fl_ge_grid [of "2 powi expo s" s] b(1) g1 by simp
  show "fl s \<le> 2 powi (expo s + 1)" using fl_le_grid [of s "2 powi (expo s + 1)"] b(2) g2 by simp
qed

lemma fl_half_exact:
  assumes "0 < s" "- 1021 \<le> expo s"
  shows "fl (fl s / 2) = fl s / 2"
proof (rule fl_exact)
  let ?e = "expo s"
  let ?t = "fl s"
  have e22: "- 1022 \<le> ?e" using assms(2) by simp
  from fl_binade [OF assms(1) e22] have lo: "2 powi ?e \<le> ?t" and hi: "?t \<le> 2 powi (?e + 1)"
    by simp_all
  have "0 < (2::real) powi ?e" by simp
  with lo have t0: "0 < ?t" by linarith
  show "?t / 2 / ulp (?t / 2) \<in> \<int>"
  proof (cases "?t < 2 powi (?e + 1)")
    case True
    have et: "expo ?t = ?e" using lo True t0 by (intro expo_unique) simp_all
    then have u1: "ulp ?t = ulp s" by (simp add: ulp_def)
    have u2: "ulp (?t / 2) = ulp ?t / 2"
      using t0 et assms(2) by (intro ulp_half) simp_all
    have "?t / 2 / ulp (?t / 2) = ?t / ulp s" unfolding u2 u1 by simp
    then show ?thesis using fl_on_grid [of s] by (simp only:)
  next
    case False
    with hi have teq: "?t = 2 powi (?e + 1)" by simp
    then have half: "?t / 2 = 2 powi ?e" by (simp add: powi_double)
    have ee: "expo (2 powi ?e :: real) = ?e" by (rule expo_unique) (simp_all add: powi_double)
    have "max (expo (2 powi ?e :: real)) (- 1022) - 52 \<le> ?e"
      unfolding ee using e22 by simp
    then have "of_int 1 * 2 powi ?e / ulp (2 powi ?e :: real) \<in> \<int>"
      by (rule grid_powi)
    then show ?thesis unfolding half by simp
  qed
qed

lemma fl_mean:
  assumes "s = 0 \<or> 2 powi (- 7) \<le> s"
  shows "fl (fl s / 2) = fl (s / 2)"
proof (cases "s = 0")
  case True
  then show ?thesis by (simp add: fl_zero)
next
  case False
  with assms have big: "2 powi (- 7) \<le> s" by simp
  have "0 < (2::real) powi (- 7)" by simp
  with big have pos: "0 < s" by linarith
  have "- 7 \<le> expo s" using big pos by (intro expo_ge) simp
  then have e: "- 1021 \<le> expo s" by simp
  have "fl (fl s / 2) = fl s / 2" using pos e by (rule fl_half_exact)
  also have "\<dots> = fl (s / 2)" using False e by (simp add: fl_half)
  finally show ?thesis .
qed

lemma fl_gt_5:
  assumes "5 + 1 / 2 ^ 50 \<le> x"
  shows "5 < fl x"
proof (cases "x < 8")
  case True
  have "of_int (5 * 2 ^ 50 + 1) * 2 powi (- 50) \<le> x"
    using assms by (simp add: power_int_minus field_simps)
  moreover have "\<bar>x\<bar> < 2 powi 3" using True assms by simp
  ultimately have "of_int (5 * 2 ^ 50 + 1) * 2 powi (- 50) \<le> fl x"
    by (rule fl_ge_grid_powi) simp_all
  then show ?thesis by (simp add: power_int_minus field_simps)
next
  case False
  then have x8: "8 \<le> x" by simp
  then have pos: "0 < x" by simp
  have "3 \<le> expo x" using x8 by (intro expo_ge) simp
  then have "(2::real) powi 3 \<le> 2 powi expo x" by (simp only: powi2_le_iff)
  moreover have "2 powi expo x \<le> fl x" using pos \<open>3 \<le> expo x\<close> by (intro fl_binade) simp_all
  ultimately show ?thesis by simp
qed

subsection \<open>Concrete values\<close>

lemma fl_examples:
  "fl 165 = 165" "fl (165 / 2) = 165 / 2" "fl 6 = 6" "fl 5 = 5" "fl 0 = 0"
  by code_simp+

lemma round_py_examples:
  "round_py 85 2 = 85" "round_py 80 2 = 80"
  "round_py (1 / 8) 2 = 1080863910568919 / 2 ^ 53"
  "round_py (681 / 8) 2 = 748723438050345 / 2 ^ 43"
  by code_simp+

subsection \<open>Constructed instances\<close>

text \<open>
  Claim C3. Construction of a \<^verbatim>\<open>ConsciousnessState\<close> succeeds only when \<^verbatim>\<open>care_level\<close> and
  \<^verbatim>\<open>attachment_level\<close> both lie in \<open>[0, 100]\<close>. The instance then holds each of them rounded
  to two decimal places, as a double: the double nearest to a multiple \<open>k / 100\<close> of one
  hundredth that is at most \<open>1 / 200\<close> away from the value given, hence at most
  \<open>1 / 200 + 2 ^ -47\<close> away from it itself. Both stored values lie in \<open>[0, 100]\<close> again. A
  construction in which either value is outside the interval fails with a validation error,
  for instance \<^verbatim>\<open>care_level = 150\<close> whatever the other fields are.
\<close>
theorem construction_bounds:
  "(new_ConsciousnessState raw = Inr s \<longrightarrow>
      0 \<le> care_level raw \<and> care_level raw \<le> 100 \<and>
      0 \<le> attachment_level raw \<and> attachment_level raw \<le> 100 \<and>
      care_level s = round_py (care_level raw) 2 \<and>
      attachment_level s = round_py (attachment_level raw) 2 \<and>
      (\<exists>k::int. care_level s = fl (of_int k / 100) \<and>
                \<bar>of_int k / 100 - care_level raw\<bar> \<le> 1 / 200) \<and>
      (\<exists>k::int. attachment_level s = fl (of_int k / 100) \<and>
                \<bar>of_int k / 100 - attachment_level raw\<bar> \<le> 1 / 200) \<and>
      \<bar>care_level s - care_level raw\<bar> \<le> 1 / 200 + 1 / 2 ^ 47 \<and>
      \<bar>attachment_level s - attachment_level raw\<bar> \<le> 1 / 200 + 1 / 2 ^ 47 \<and>
      0 \<le> care_level s \<and> care_level s \<le> 100 \<and>
      0 \<le> attachment_level s \<and> attachment_level s \<le> 100) \<and>
   (\<not> (0 \<le> care_level bad \<and> care_level bad \<le> 100 \<and>
        0 \<le> attachment_level bad \<and> attachment_level bad \<le> 100) \<longrightarrow>
      new_ConsciousnessState bad = Inl ValidationError) \<and>
   new_ConsciousnessState (raw\<lparr>care_level := 150\<rparr>) = Inl ValidationError"
proof (intro conjI impI)
  assume ok: "new_ConsciousnessState raw = Inr s"
  then have r: "0 \<le> care_level raw" "care_level raw \<le> 100"
      "0 \<le> attachment_level raw" "attachment_level raw \<le> 100"
    and c: "care_level s = round_py (care_level raw) 2"
    and a: "attachment_level s = round_py (attachment_level raw) 2"
    by (simp_all add: new_ConsciousnessState_Inr)
  show "0 \<le> care_level raw" "care_level raw \<le> 100"
    "0 \<le> attachment_level raw" "attachment_level raw \<le> 100" by (rule r)+
  show "care_level s = round_py (care_level raw) 2" by (rule c)
  show "attachment_level s = round_py (attachment_level raw) 2" by (rule a)
  show "\<exists>k::int. care_level s = fl (of_int k / 100) \<and>
                \<bar>of_int k / 100 - care_level raw\<bar> \<le> 1 / 200"
    unfolding c using round_py_cents [OF r(1,2)] by blast
  show "\<exists>k::int. attachment_level s = fl (of_int k / 100) \<and>
                \<bar>of_int k / 100 - attachment_level raw\<bar> \<le> 1 / 200"
    unfolding a using round_py_cents [OF r(3,4)] by blast
  from round_py_range [OF r(1,2)]
  show "\<bar>care_level s - care_level raw\<bar> \<le> 1 / 200 + 1 / 2 ^ 47"
    "0 \<le> care_level s" "care_level s \<le> 100"
    unfolding c by simp_all
  from round_py_range [OF r(3,4)]
  show "\<bar>attachment_level s - attachment_level raw\<bar> \<le> 1 / 200 + 1 / 2 ^ 47"
    "0 \<le> attachment_level s" "attachment_level s \<le> 100"
    unfolding a by simp_all
next
  assume "\<not> (0 \<le> care_level bad \<and> care_level bad \<le> 100 \<and>
        0 \<le> attachment_level bad \<and> attachment_level bad \<le> 100)"
  then show "new_ConsciousnessState bad = Inl ValidationError"
    by (rule new_ConsciousnessState_out_of_range)
next
  show "new_ConsciousnessState (raw\<lparr>care_level := 150\<rparr>) = Inl ValidationError"
    by (rule new_ConsciousnessState_out_of_range) simp
qed

theorem construction_bounds_witness:
  "new_ConsciousnessState
     ((ConsciousnessState_defaults ''2026-01-01T00:00:00'')
        \<lparr>care_level := 1 / 8, attachment_level := 681 / 8\<rparr>) =
   Inr ((ConsciousnessState_defaults ''2026-01-01T00:00:00'')
        \<lparr>care_level := 1080863910568919 / 2 ^ 53,
         attachment_level := 748723438050345 / 2 ^ 43\<rparr>) \<and>
   \<bar>(1080863910568919 / 2 ^ 53 :: real) - 1 / 8\<bar> \<le> 1 / 200 + 1 / 2 ^ 47 \<and>
   (0::real) \<le> 748723438050345 / 2 ^ 43 \<and> (748723438050345 / 2 ^ 43 :: real) \<le> 100 \<and>
   new_ConsciousnessState
     ((ConsciousnessState_defaults ''2026-01-01T00:00:00'')\<lparr>care_level := 150\<rparr>) =
   Inl ValidationError"
proof -
  let ?d = "ConsciousnessState_defaults ''2026-01-01T00:00:00''"
  let ?raw = "?d\<lparr>care_level := 1 / 8, attachment_level := 681 / 8\<rparr>"
  let ?s = "?d\<lparr>care_level := 1080863910568919 / 2 ^ 53,
         attachment_level := 748723438050345 / 2 ^ 43\<rparr>"
  have ok: "new_ConsciousnessState ?raw = Inr ?s"
    by (simp add: new_ConsciousnessState_Inr ConsciousnessState_defaults_def round_py_examples)
  have bad: "\<not> (0 \<le> care_level (?d\<lparr>care_level := 150\<rparr>) \<and>
      care_level (?d\<lparr>care_level := 150\<rparr>) \<le> 100 \<and>
      0 \<le> attachment_level (?d\<lparr>care_level := 150\<rparr>) \<and>
      attachment_level (?d\<lparr>care_level := 150\<rparr>) \<le> 100)"
    by simp
  show ?thesis
    using ok bad construction_bounds [of ?raw ?s "?d\<lparr>care_level := 150\<rparr>"]
    by simp
qed

lemma constructed_sum:
  assumes "new_ConsciousnessState raw = Inr s"
  shows "0 \<le> care_level s + attachment_level s"
    "care_level s + attachment_level s \<le> 200"
    "care_level s + attachment_level s = 0 \<or> 2 powi (- 7) \<le> care_level s + attachment_level s"
proof -
  note l = constructed_levels [OF assms]
  show "0 \<le> care_level s + attachment_level s" using l(1,4) by simp
  show "care_level s + attachment_level s \<le> 200" using l(2,5) by simp
  show "care_level s + attachment_level s = 0 \<or>
      2 powi (- 7) \<le> care_level s + attachment_level s"
    using l(1,3,4,6) by linarith
qed

subsection \<open>The derived accessors of \<^verbatim>\<open>ConsciousnessState\<close>\<close>

text \<open>
  Claim C4, amended. \<^verbatim>\<open>get_relationship_weight()\<close> is a total function of the state (it has
  no error value). On a constructed state it returns the double nearest to the arithmetic
  mean of \<^verbatim>\<open>care_level\<close> and \<^verbatim>\<open>attachment_level\<close>, which is at most \<open>2 ^ -47\<close> away from the
  mean; on a state whose levels are 85.0 and 80.0, also on one constructed from these two
  values, it returns 82.5. (It is not the mean itself on every constructed state: see the
  counterexample below, the state with the levels 0.1 and 0.2.)
\<close>
theorem relationship_weight_rounded_mean:
  "(new_ConsciousnessState raw = Inr s \<longrightarrow>
      get_relationship_weight s = fl ((care_level s + attachment_level s) / 2) \<and>
      \<bar>get_relationship_weight s - (care_level s + attachment_level s) / 2\<bar> \<le> 1 / 2 ^ 47) \<and>
   (care_level t = 85 \<and> attachment_level t = 80 \<longrightarrow> get_relationship_weight t = 82.5) \<and>
   (new_ConsciousnessState (raw\<lparr>care_level := 85, attachment_level := 80\<rparr>) = Inr u \<longrightarrow>
      get_relationship_weight u = 82.5)"
proof (intro conjI impI)
  assume ok: "new_ConsciousnessState raw = Inr s"
  let ?m = "(care_level s + attachment_level s) / 2"
  note b = constructed_sum [OF ok]
  show w: "get_relationship_weight s = fl ?m"
    unfolding get_relationship_weight_def using b(3) by (rule fl_mean)
  have m: "0 \<le> ?m" "?m \<le> 100" using b(1,2) by simp_all
  then have "\<bar>?m\<bar> < 2 powi 7" by simp
  then have "ulp ?m \<le> 2 powi (7 - 53)" by (rule ulp_le_powi) simp
  then have "ulp ?m / 2 \<le> 1 / 2 ^ 47" by (simp add: power_int_minus field_simps)
  then show "\<bar>get_relationship_weight s - ?m\<bar> \<le> 1 / 2 ^ 47"
    unfolding w using fl_near [of ?m] by linarith
next
  assume "care_level t = 85 \<and> attachment_level t = 80"
  then show "get_relationship_weight t = 82.5"
    by (simp add: get_relationship_weight_def fl_examples)
next
  assume "new_ConsciousnessState (raw\<lparr>care_level := 85, attachment_level := 80\<rparr>) = Inr u"
  then have "care_level u = 85" "attachment_level u = 80"
    by (simp_all add: new_ConsciousnessState_Inr round_py_examples)
  then show "get_relationship_weight u = 82.5"
    by (simp add: get_relationship_weight_def fl_examples)
qed

theorem relationship_weight_rounded_mean_witness:
  "new_ConsciousnessState
     ((ConsciousnessState_defaults ''2026-01-01T00:00:00'')
        \<lparr>care_level := 85, attachment_level := 80\<rparr>) =
   Inr ((ConsciousnessState_defaults ''2026-01-01T00:00:00'')
        \<lparr>care_level := 85, attachment_level := 80\<rparr>) \<and>
   get_relationship_weight
     ((ConsciousnessState_defaults ''2026-01-01T00:00:00'')
        \<lparr>care_level := 85, attachment_level := 80\<rparr>) = 82.5"
proof -
  let ?s = "(ConsciousnessState_defaults ''2026-01-01T00:00:00'')
        \<lparr>care_level := 85, attachment_level := 80\<rparr>"
  have ok: "new_ConsciousnessState (?s\<lparr>care_level := 85, attachment_level := 80\<rparr>) = Inr ?s"
    by (simp add: new_ConsciousnessState_Inr ConsciousnessState_defaults_def round_py_examples)
  then have ok': "new_ConsciousnessState ?s = Inr ?s" by simp
  have lv: "care_level ?s = 85 \<and> attachment_level ?s = 80" by simp
  show ?thesis
    using ok ok' lv relationship_weight_rounded_mean [of ?s ?s ?s ?s] by simp
qed

text \<open>
  The state constructed from the doubles of the literals 0.1 and 0.2 keeps both values; its
  weight is the double 0.15000000000000002, which is not the mean of the two stored values.
\<close>
theorem relationship_weight_exact_mean_counterexample:
  "new_ConsciousnessState
     ((ConsciousnessState_defaults ''2026-01-01T00:00:00'')
        \<lparr>care_level := 3602879701896397 / 2 ^ 55,
         attachment_level := 3602879701896397 / 2 ^ 54\<rparr>) =
   Inr ((ConsciousnessState_defaults ''2026-01-01T00:00:00'')
        \<lparr>care_level := 3602879701896397 / 2 ^ 55,
         attachment_level := 3602879701896397 / 2 ^ 54\<rparr>) \<and>
   get_relationship_weight
     ((ConsciousnessState_defaults ''2026-01-01T00:00:00'')
        \<lparr>care_level := 3602879701896397 / 2 ^ 55,
         attachment_level := 3602879701896397 / 2 ^ 54\<rparr>) = 1351079888211149 / 2 ^ 53 \<and>
   get_relationship_weight
     ((ConsciousnessState_defaults ''2026-01-01T00:00:00'')
        \<lparr>care_level := 3602879701896397 / 2 ^ 55,
         attachment_level := 3602879701896397 / 2 ^ 54\<rparr>) \<noteq>
   (care_level
     ((ConsciousnessState_defaults ''2026-01-01T00:00:00'')
        \<lparr>care_level := 3602879701896397 / 2 ^ 55,
         attachment_level := 3602879701896397 / 2 ^ 54\<rparr>) +
    attachment_level
     ((ConsciousnessState_defaults ''2026-01-01T00:00:00'')
        \<lparr>care_level := 3602879701896397 / 2 ^ 55,
         attachment_level := 3602879701896397 / 2 ^ 54\<rparr>)) / 2"
  by code_simp

text \<open>
  Claim C10. On every constructed \<^verbatim>\<open>ConsciousnessState\<close>, \<^verbatim>\<open>get_relationship_weight()\<close> lies in
  \<open>[0, 100]\<close>.
\<close>
theorem relationship_weight_in_range:
  "new_ConsciousnessState raw = Inr s \<Longrightarrow>
     0 \<le> get_relationship_weight s \<and> get_relationship_weight s \<le> 100"
proof -
  assume ok: "new_ConsciousnessState raw = Inr s"
  note b = constructed_sum [OF ok]
  let ?t = "fl (care_level s + attachment_level s)"
  have t0: "0 \<le> ?t" using b(1) by (rule fl_nonneg)
  have t1: "?t \<le> 200" using b(1,2) by (rule fl_le_200)
  have h0: "0 \<le> ?t / 2" using t0 by simp
  have h1: "?t / 2 \<le> 100" using t1 by simp
  have "0 \<le> fl (?t / 2)" using h0 by (rule fl_nonneg)
  moreover have "fl (?t / 2) \<le> 100" using h0 h1 by (rule fl_le_100)
  ultimately show ?thesis by (simp add: get_relationship_weight_def)
qed

theorem relationship_weight_in_range_witness:
  "new_ConsciousnessState
     ((ConsciousnessState_defaults ''2026-01-01T00:00:00'')
        \<lparr>care_level := 100, attachment_level := 99.999\<rparr>) =
   Inr ((ConsciousnessState_defaults ''2026-01-01T00:00:00'')
        \<lparr>care_level := 100, attachment_level := 100\<rparr>) \<and>
   0 \<le> get_relationship_weight
     ((ConsciousnessState_defaults ''2026-01-01T00:00:00'')
        \<lparr>care_level := 100, attachment_level := 100\<rparr>) \<and>
   get_relationship_weight
     ((ConsciousnessState_defaults ''2026-01-01T00:00:00'')
        \<lparr>care_level := 100, attachment_level := 100\<rparr>) \<le> 100"
proof -
  let ?d = "ConsciousnessState_defaults ''2026-01-01T00:00:00''"
  have ok: "new_ConsciousnessState (?d\<lparr>care_level := 100, attachment_level := 99.999\<rparr>) =
      Inr (?d\<lparr>care_level := 100, attachment_level := 100\<rparr>)"
    by code_simp
  show ?thesis
    using ok relationship_weight_in_range [OF ok] by simp
qed

lemma delta_le_5: "\<bar>d\<bar> \<le> 5 \<Longrightarrow> \<not> 5 < \<bar>fl d\<bar>"
proof -
  assume "\<bar>d\<bar> \<le> 5"
  then have "fl \<bar>d\<bar> \<le> 5" by (intro fl_le_5) simp_all
  then show ?thesis by (simp add: fl_abs)
qed

lemma delta_gt_5: "5 + 1 / 2 ^ 50 \<le> \<bar>d\<bar> \<Longrightarrow> 5 < \<bar>fl d\<bar>"
  using fl_gt_5 [of "\<bar>d\<bar>"] by (simp add: fl_abs)

text \<open>
  Claim C2, amended. \<^verbatim>\<open>s.has_evolved_significantly(p)\<close> is true if and only if \<open>p\<close> is present
  and the difference of the care levels or of the attachment levels of \<open>s\<close> and \<open>p\<close>, rounded
  to the nearest double as the subtraction of doubles does, has an absolute value greater
  than 5. It is false when \<open>p\<close> is absent; true when one of the two exact absolute
  differences is at least \<open>5 + 2 ^ -50\<close> (the next double after 5), so for care levels 76
  against 70; and false when both exact absolute differences are 5 or less. (For an exact
  difference between 5 and \<open>5 + 2 ^ -50\<close> the rounding decides: see the counterexample below,
  the states with the care levels 5.03 and 0.03.)
\<close>
theorem evolved_significantly_rounded:
  "(has_evolved_significantly s p \<longleftrightarrow>
      (\<exists>q. p = Some q \<and>
           (5 < \<bar>fl (care_level s - care_level q)\<bar> \<or>
            5 < \<bar>fl (attachment_level s - attachment_level q)\<bar>))) \<and>
   \<not> has_evolved_significantly s None \<and>
   (5 + 1 / 2 ^ 50 \<le> \<bar>care_level s - care_level r\<bar> \<or>
    5 + 1 / 2 ^ 50 \<le> \<bar>attachment_level s - attachment_level r\<bar> \<longrightarrow>
      has_evolved_significantly s (Some r)) \<and>
   (care_level a = 76 \<and> care_level b = 70 \<longrightarrow> has_evolved_significantly a (Some b)) \<and>
   (\<bar>care_level c - care_level d\<bar> \<le> 5 \<and> \<bar>attachment_level c - attachment_level d\<bar> \<le> 5 \<longrightarrow>
      \<not> has_evolved_significantly c (Some d))"
proof (intro conjI impI)
  show "has_evolved_significantly s p \<longleftrightarrow>
      (\<exists>q. p = Some q \<and>
           (5 < \<bar>fl (care_level s - care_level q)\<bar> \<or>
            5 < \<bar>fl (attachment_level s - attachment_level q)\<bar>))"
    by (cases p) (simp_all add: has_evolved_significantly_def Let_def)
next
  show "\<not> has_evolved_significantly s None"
    by (simp add: has_evolved_significantly_def)
next
  assume "5 + 1 / 2 ^ 50 \<le> \<bar>care_level s - care_level r\<bar> \<or>
    5 + 1 / 2 ^ 50 \<le> \<bar>attachment_level s - attachment_level r\<bar>"
  then have "5 < \<bar>fl (care_level s - care_level r)\<bar> \<or>
      5 < \<bar>fl (attachment_level s - attachment_level r)\<bar>"
    using delta_gt_5 by blast
  then show "has_evolved_significantly s (Some r)"
    by (simp add: has_evolved_significantly_def Let_def)
next
  assume "care_level a = 76 \<and> care_level b = 70"
  then show "has_evolved_significantly a (Some b)"
    by (simp add: has_evolved_significantly_def Let_def fl_examples)
next
  assume "\<bar>care_level c - care_level d\<bar> \<le> 5 \<and> \<bar>attachment_level c - attachment_level d\<bar> \<le> 5"
  then have "\<not> 5 < \<bar>fl (care_level c - care_level d)\<bar>"
    "\<not> 5 < \<bar>fl (attachment_level c - attachment_level d)\<bar>"
    by (simp_all add: delta_le_5)
  then show "\<not> has_evolved_significantly c (Some d)"
    by (simp add: has_evolved_significantly_def Let_def)
qed

theorem evolved_significantly_rounded_witness:
  "has_evolved_significantly
     ((ConsciousnessState_defaults ''t1'')\<lparr>care_level := 76\<rparr>)
     (Some ((ConsciousnessState_defaults ''t0'')\<lparr>care_level := 70\<rparr>)) \<and>
   \<not> has_evolved_significantly
     ((ConsciousnessState_defaults ''t1'')\<lparr>care_level := 75\<rparr>)
     (Some ((ConsciousnessState_defaults ''t0'')\<lparr>care_level := 70\<rparr>)) \<and>
   \<not> has_evolved_significantly
     ((ConsciousnessState_defaults ''t1'')\<lparr>care_level := 76\<rparr>) None"
proof -
  let ?a = "(ConsciousnessState_defaults ''t1'')\<lparr>care_level := 76\<rparr>"
  let ?b = "(ConsciousnessState_defaults ''t0'')\<lparr>care_level := 70\<rparr>"
  let ?c = "(ConsciousnessState_defaults ''t1'')\<lparr>care_level := 75\<rparr>"
  have h0: "5 + 1 / 2 ^ 50 \<le> \<bar>care_level ?a - care_level ?b\<bar> \<or>
    5 + 1 / 2 ^ 50 \<le> \<bar>attachment_level ?a - attachment_level ?b\<bar>"
    by simp
  have h1: "care_level ?a = 76 \<and> care_level ?b = 70" by simp
  have h2: "\<bar>care_level ?c - care_level ?b\<bar> \<le> 5 \<and>
      \<bar>attachment_level ?c - attachment_level ?b\<bar> \<le> 5"
    by (simp add: ConsciousnessState_defaults_def)
  show ?thesis
    using h0 h1 h2 evolved_significantly_rounded [of ?a None ?b ?a ?b ?c ?b] by blast
qed

text \<open>
  The states constructed from the doubles of the literals 5.03 and 0.03 keep these values.
  Their exact difference is greater than 5, the double nearest to it is 5, and the answer
  is \<open>False\<close>.
\<close>
theorem evolved_significantly_exact_counterexample:
  "new_ConsciousnessState
     ((ConsciousnessState_defaults ''t1'')\<lparr>care_level := 5663276531418399 / 2 ^ 50\<rparr>) =
   Inr ((ConsciousnessState_defaults ''t1'')\<lparr>care_level := 5663276531418399 / 2 ^ 50\<rparr>) \<and>
   new_ConsciousnessState
     ((ConsciousnessState_defaults ''t0'')\<lparr>care_level := 1080863910568919 / 2 ^ 55\<rparr>) =
   Inr ((ConsciousnessState_defaults ''t0'')\<lparr>care_level := 1080863910568919 / 2 ^ 55\<rparr>) \<and>
   5 < \<bar>care_level
          ((ConsciousnessState_defaults ''t1'')\<lparr>care_level := 5663276531418399 / 2 ^ 50\<rparr>) -
        care_level
          ((ConsciousnessState_defaults ''t0'')\<lparr>care_level := 1080863910568919 / 2 ^ 55\<rparr>)\<bar> \<and>
   \<not> has_evolved_significantly
     ((ConsciousnessState_defaults ''t1'')\<lparr>care_level := 5663276531418399 / 2 ^ 50\<rparr>)
     (Some ((ConsciousnessState_defaults ''t0'')
        \<lparr>care_level := 1080863910568919 / 2 ^ 55\<rparr>))"
  by code_simp

text \<open>
  The states with the care levels 8.05 and 3.05: the stored doubles differ by \<open>5 + 2 ^ -50\<close>,
  the subtraction is exact, and the answer is \<open>True\<close>.
\<close>

lemma evolved_significantly_8_05_3_05:
  "has_evolved_significantly
     ((ConsciousnessState_defaults ''t1'')\<lparr>care_level := 2265873562520781 / 2 ^ 48\<rparr>)
     (Some ((ConsciousnessState_defaults ''t0'')
        \<lparr>care_level := 3433994715870003 / 2 ^ 50\<rparr>)) \<and>
   (2265873562520781 / 2 ^ 48 - 3433994715870003 / 2 ^ 50 :: real) = 5 + 1 / 2 ^ 50"
  by code_simp

text \<open>
  Claim C9. \<^verbatim>\<open>has_evolved_significantly\<close> is symmetric: \<^verbatim>\<open>a.has_evolved_significantly(b)\<close>
  equals \<^verbatim>\<open>b.has_evolved_significantly(a)\<close> for all states \<open>a\<close> and \<open>b\<close>.
\<close>
theorem evolved_significantly_symmetric:
  "has_evolved_significantly a (Some b) = has_evolved_significantly b (Some a)"
proof -
  have "\<bar>fl (x - y)\<bar> = \<bar>fl (y - x)\<bar>" for x y :: real
    using fl_minus [of "y - x"] by simp
  then show ?thesis
    by (simp add: has_evolved_significantly_def Let_def)
qed

subsection \<open>Construction of an \<^verbatim>\<open>EmotionalDimension\<close>\<close>

lemma new_EmotionalDimension_eq:
  "new_EmotionalDimension raw =
     (if - 1 \<le> valence raw \<and> valence raw \<le> 1 \<and> - 1 \<le> arousal raw \<and> arousal raw \<le> 1 \<and>
         - 1 \<le> dominance raw \<and> dominance raw \<le> 1
      then Inr raw else Inl ValidationError)"
  by (simp add: new_EmotionalDimension_def Field_ge_le_def)

text \<open>
  Claim C5. Construction of an \<^verbatim>\<open>EmotionalDimension\<close> succeeds if and only if \<^verbatim>\<open>valence\<close>,
  \<^verbatim>\<open>arousal\<close> and \<^verbatim>\<open>dominance\<close> each lie in \<open>[-1, 1]\<close>, and it then stores the three values
  unchanged; otherwise it fails with a validation error. With \<^verbatim>\<open>valence = 1.5\<close> it fails; with
  \<^verbatim>\<open>valence = 1.0\<close> (and the other two fields in range) it succeeds.
\<close>
theorem emotional_dimension_construction:
  "((\<exists>d. new_EmotionalDimension raw = Inr d) \<longleftrightarrow>
      - 1 \<le> valence raw \<and> valence raw \<le> 1 \<and> - 1 \<le> arousal raw \<and> arousal raw \<le> 1 \<and>
      - 1 \<le> dominance raw \<and> dominance raw \<le> 1) \<and>
   (new_EmotionalDimension raw = Inr d \<longrightarrow> d = raw) \<and>
   ((\<forall>d. new_EmotionalDimension raw \<noteq> Inr d) \<longrightarrow>
      new_EmotionalDimension raw = Inl ValidationError) \<and>
   new_EmotionalDimension (raw\<lparr>valence := 1.5\<rparr>) = Inl ValidationError \<and>
   (- 1 \<le> arousal r \<and> arousal r \<le> 1 \<and> - 1 \<le> dominance r \<and> dominance r \<le> 1 \<longrightarrow>
      new_EmotionalDimension (r\<lparr>valence := 1\<rparr>) = Inr (r\<lparr>valence := 1\<rparr>))"
  by (auto simp: new_EmotionalDimension_eq)

theorem emotional_dimension_construction_witness:
  "new_EmotionalDimension \<lparr>valence = 1, arousal = 0, dominance = - 1\<rparr> =
     Inr \<lparr>valence = 1, arousal = 0, dominance = - 1\<rparr> \<and>
   new_EmotionalDimension \<lparr>valence = 1.5, arousal = 0, dominance = - 1\<rparr> =
     Inl ValidationError"
proof -
  let ?r = "\<lparr>valence = 0.3, arousal = 0, dominance = - 1\<rparr>"
  have h: "- 1 \<le> arousal ?r \<and> arousal ?r \<le> 1 \<and> - 1 \<le> dominance ?r \<and> dominance ?r \<le> 1"
    by simp
  show ?thesis
    using h emotional_dimension_construction [of ?r ?r ?r] by simp
qed

subsection \<open>The dominant feeling\<close>

lemma max_from_first_maximum:
  "\<exists>ys zs. best # xs = ys @ max_from key best xs # zs \<and>
     (\<forall>y \<in> set ys. key y < key (max_from key best xs)) \<and>
     (\<forall>z \<in> set zs. key z \<le> key (max_from key best xs))"
proof (induction xs arbitrary: best)
  case Nil
  have "[best] = [] @ max_from key best [] # []" by simp
  then show ?case by fastforce
next
  case (Cons x xs)
  define b where "b = (if key best < key x then x else best)"
  define r where "r = max_from key b xs"
  have res: "max_from key best (x # xs) = r" by (simp add: r_def b_def)
  have b_cases: "b = x \<and> key best < key x \<or> b = best \<and> key x \<le> key best"
    by (auto simp: b_def)
  from Cons.IH [of b] obtain ys zs where
    split: "b # xs = ys @ r # zs"
    and before: "\<forall>y \<in> set ys. key y < key r"
    and after: "\<forall>z \<in> set zs. key z \<le> key r"
    unfolding r_def by blast
  show ?case
  proof (cases ys)
    case Nil
    with split have rb: "r = b" and zs: "zs = xs" by simp_all
    from b_cases show ?thesis
    proof
      assume bx: "b = x \<and> key best < key x"
      have "best # x # xs = [best] @ r # xs" using rb bx by simp
      moreover have "\<forall>y \<in> set [best]. key y < key r" using rb bx by simp
      moreover have "\<forall>z \<in> set xs. key z \<le> key r" using after zs by simp
      ultimately show ?thesis unfolding res by blast
    next
      assume bb: "b = best \<and> key x \<le> key best"
      have "best # x # xs = [] @ r # (x # xs)" using rb bb by simp
      moreover have "\<forall>y \<in> set []. key y < key r" by simp
      moreover have "\<forall>z \<in> set (x # xs). key z \<le> key r"
        using after zs rb bb by simp
      ultimately show ?thesis unfolding res by blast
    qed
  next
    case (Cons y ys')
    with split have y: "y = b" and xs: "xs = ys' @ r # zs" by simp_all
    from before Cons y have lt: "key b < key r" by simp
    have "key best < key r" "key x < key r"
      using lt b_cases by auto
    then have "\<forall>y \<in> set (best # x # ys'). key y < key r"
      using before Cons by simp
    moreover have "best # x # xs = (best # x # ys') @ r # zs" using xs by simp
    ultimately show ?thesis unfolding res using after by blast
  qed
qed

lemma max_py_first_maximum:
  "xs \<noteq> [] \<Longrightarrow>
   \<exists>r ys zs. max_py key xs = Inr r \<and> xs = ys @ r # zs \<and>
     (\<forall>y \<in> set ys. key y < key r) \<and> (\<forall>z \<in> set zs. key z \<le> key r)"
proof (cases xs)
  case Nil
  assume "xs \<noteq> []"
  with Nil show ?thesis by simp
next
  case (Cons b bs)
  from max_from_first_maximum [of b bs key] show ?thesis
    unfolding Cons by auto
qed

lemma get_dominant_feeling_first_maximum:
  "\<exists>n v ys zs. get_dominant_feeling s = Inr (n, v) \<and> feelings s = ys @ (n, v) # zs \<and>
     (\<forall>y \<in> set ys. snd y < v) \<and> (\<forall>z \<in> set zs. snd z \<le> v)"
proof -
  have "feelings s \<noteq> []" by (simp add: feelings_def)
  from max_py_first_maximum [OF this, of snd] obtain r ys zs where
    "max_py snd (feelings s) = Inr r" "feelings s = ys @ r # zs"
    "\<forall>y \<in> set ys. snd y < snd r" "\<forall>z \<in> set zs. snd z \<le> snd r"
    by blast
  then show ?thesis
    unfolding get_dominant_feeling_def by (cases r) auto
qed

text \<open>
  Claim C1. \<^verbatim>\<open>get_dominant_feeling()\<close> returns a pair \<open>(n, v)\<close> of the list of the six channels
  (concern, protectiveness, pride, frustration, relief, connection, in this order) such
  that every channel before it in the list has a strictly smaller value and every channel
  after it has a value that is not larger: the channel of largest value, and the first of
  them in the order of the fields when several channels share that value. In particular,
  when protectiveness and connection hold the largest value, and concern, the only channel
  before protectiveness, does not, protectiveness is returned.
\<close>
theorem dominant_feeling_first_maximum:
  "(\<exists>n v ys zs.
      get_dominant_feeling s = Inr (n, v) \<and> feelings s = ys @ (n, v) # zs \<and>
      (\<forall>y \<in> set ys. snd y < v) \<and> (\<forall>z \<in> set zs. snd z \<le> v)) \<and>
   feelings s =
     [(''concern'', concern s), (''protectiveness'', protectiveness s), (''pride'', pride s),
      (''frustration'', frustration s), (''relief'', relief s), (''connection'', connection s)] \<and>
   (protectiveness t = connection t \<and> concern t < protectiveness t \<and>
    pride t \<le> protectiveness t \<and> frustration t \<le> protectiveness t \<and>
    relief t \<le> protectiveness t \<longrightarrow>
      get_dominant_feeling t = Inr (''protectiveness'', protectiveness t))"
proof (intro conjI impI)
  show "\<exists>n v ys zs.
      get_dominant_feeling s = Inr (n, v) \<and> feelings s = ys @ (n, v) # zs \<and>
      (\<forall>y \<in> set ys. snd y < v) \<and> (\<forall>z \<in> set zs. snd z \<le> v)"
    by (rule get_dominant_feeling_first_maximum)
next
  show "feelings s =
     [(''concern'', concern s), (''protectiveness'', protectiveness s), (''pride'', pride s),
      (''frustration'', frustration s), (''relief'', relief s), (''connection'', connection s)]"
    by (simp add: feelings_def)
next
  assume "protectiveness t = connection t \<and> concern t < protectiveness t \<and>
    pride t \<le> protectiveness t \<and> frustration t \<le> protectiveness t \<and>
    relief t \<le> protectiveness t"
  then show "get_dominant_feeling t = Inr (''protectiveness'', protectiveness t)"
    by (simp add: get_dominant_feeling_def feelings_def)
qed

theorem dominant_feeling_first_maximum_witness:
  "get_dominant_feeling
     \<lparr>concern = 3, protectiveness = 8, pride = 2, frustration = 1, relief = 0,
      connection = 8, primary_feeling = None, feeling_intensity = 0\<rparr> =
   Inr (''protectiveness'', 8)"
proof -
  let ?t = "\<lparr>concern = 3, protectiveness = 8, pride = 2, frustration = 1, relief = 0,
      connection = 8, primary_feeling = None, feeling_intensity = 0\<rparr>"
  have h: "protectiveness ?t = connection ?t \<and> concern ?t < protectiveness ?t \<and>
    pride ?t \<le> protectiveness ?t \<and> frustration ?t \<le> protectiveness ?t \<and>
    relief ?t \<le> protectiveness ?t"
    by simp
  show ?thesis
    using h dominant_feeling_first_maximum [of ?t ?t] by simp
qed

subsection \<open>The API shell\<close>

text \<open>
  Claim C6. Each of \<^verbatim>\<open>GET /consciousness\<close>, \<^verbatim>\<open>POST /interact\<close>, \<^verbatim>\<open>GET /history/formative\<close>,
  \<^verbatim>\<open>GET /patterns\<close> and \<^verbatim>\<open>GET /relationship\<close> answers with status 200 and exactly the body
  whose key \<^verbatim>\<open>error\<close> holds \<^verbatim>\<open>Not implemented yet\<close> and whose key \<^verbatim>\<open>message\<close> holds
  \<^verbatim>\<open>Phase 1: Infrastructure setup in progress\<close>, and logs nothing; \<^verbatim>\<open>interact\<close> returns this body for every request, whatever its body
  is.
\<close>
theorem placeholder_endpoints:
  "(request_method req = ''GET'' \<and>
      (url_path req = ''/consciousness'' \<or> url_path req = ''/history/formative'' \<or>
       url_path req = ''/patterns'' \<or> url_path req = ''/relationship'') \<or>
    request_method req = ''POST'' \<and> url_path req = ''/interact'' \<longrightarrow>
      app now req logged =
        Some (\<lparr>status_code = 200,
               content = JObj [(''error'', JStr ''Not implemented yet''),
                               (''message'',
                                  JStr ''Phase 1: Infrastructure setup in progress'')]\<rparr>,
              logged)) \<and>
   interact r =
     JObj [(''error'', JStr ''Not implemented yet''),
           (''message'', JStr ''Phase 1: Infrastructure setup in progress'')] \<and>
   get_consciousness_state = interact r \<and> get_formative_moments = interact r \<and>
   get_learned_patterns = interact r \<and> get_relationship_narrative = interact r"
  by (auto simp: app_def routes_def serve_def JSONResponse_def interact_def
      get_consciousness_state_def get_formative_moments_def get_learned_patterns_def
      get_relationship_narrative_def)

theorem placeholder_endpoints_witness:
  "app ''2026-01-01T00:00:00''
     \<lparr>request_method = ''POST'', url_path = ''/interact'', body = ''message=hello''\<rparr> [] =
   Some (\<lparr>status_code = 200,
          content = JObj [(''error'', JStr ''Not implemented yet''),
                          (''message'', JStr ''Phase 1: Infrastructure setup in progress'')]\<rparr>,
         []) \<and>
   app ''2026-01-01T00:00:00''
     \<lparr>request_method = ''GET'', url_path = ''/patterns'', body = []\<rparr> [] =
   Some (\<lparr>status_code = 200,
          content = JObj [(''error'', JStr ''Not implemented yet''),
                          (''message'', JStr ''Phase 1: Infrastructure setup in progress'')]\<rparr>,
         [])"
proof -
  let ?p = "\<lparr>request_method = ''POST'', url_path = ''/interact'', body = ''message=hello''\<rparr>"
  let ?g = "\<lparr>request_method = ''GET'', url_path = ''/patterns'', body = []\<rparr>"
  have hp: "request_method ?p = ''GET'' \<and>
      (url_path ?p = ''/consciousness'' \<or> url_path ?p = ''/history/formative'' \<or>
       url_path ?p = ''/patterns'' \<or> url_path ?p = ''/relationship'') \<or>
    request_method ?p = ''POST'' \<and> url_path ?p = ''/interact''"
    by simp
  have hg: "request_method ?g = ''GET'' \<and>
      (url_path ?g = ''/consciousness'' \<or> url_path ?g = ''/history/formative'' \<or>
       url_path ?g = ''/patterns'' \<or> url_path ?g = ''/relationship'') \<or>
    request_method ?g = ''POST'' \<and> url_path ?g = ''/interact''"
    by simp
  show ?thesis
    using hp hg
      placeholder_endpoints [of ?p "''2026-01-01T00:00:00''" "[]" ?p]
      placeholder_endpoints [of ?g "''2026-01-01T00:00:00''" "[]" ?g]
    by blast
qed

text \<open>
  Claim C7. \<^verbatim>\<open>GET /health\<close> answers with status 200 and the dictionary of \<^verbatim>\<open>health_check\<close>,
  whose \<^verbatim>\<open>status\<close> is \<^verbatim>\<open>healthy\<close> and whose \<^verbatim>\<open>databases\<close> holds \<^verbatim>\<open>unknown\<close> for postgres,
  neo4j and chromadb, at every time and for every request: the handler reads the clock and
  nothing else, so no state of a backing store can change its answer.
\<close>
theorem health_always_healthy:
  "(request_method req = ''GET'' \<and> url_path req = ''/health'' \<longrightarrow>
      app now req logged =
        Some (\<lparr>status_code = 200, content = health_check now\<rparr>, logged)) \<and>
   (\<exists>fields. health_check now = JObj fields \<and>
      map_of fields ''status'' = Some (JStr ''healthy'') \<and>
      map_of fields ''databases'' =
        Some (JObj [(''postgres'', JStr ''unknown''),
                    (''neo4j'', JStr ''unknown''),
                    (''chromadb'', JStr ''unknown'')]))"
  by (simp add: app_def routes_def serve_def JSONResponse_def health_check_def)

theorem health_always_healthy_witness:
  "app ''2026-01-01T00:00:00'' \<lparr>request_method = ''GET'', url_path = ''/health'', body = []\<rparr> [] =
   Some (\<lparr>status_code = 200, content = health_check ''2026-01-01T00:00:00''\<rparr>, [])"
proof -
  let ?g = "\<lparr>request_method = ''GET'', url_path = ''/health'', body = []\<rparr>"
  have h: "request_method ?g = ''GET'' \<and> url_path ?g = ''/health''" by simp
  show ?thesis
    using h health_always_healthy [of ?g "''2026-01-01T00:00:00''" "[]"] by blast
qed

text \<open>
  Claim C8. When a route function lets an exception escape, the request is answered by
  \<^verbatim>\<open>global_exception_handler\<close>: status 500, the fixed body (error \<^verbatim>\<open>Internal server error\<close>,
  message \<^verbatim>\<open>An unexpected error occurred\<close>, and a timestamp), and one more call of
  \<^verbatim>\<open>logger.error\<close> holding the path and the method of the request and \<^verbatim>\<open>str(exc)\<close>. Nothing of
  the exception reaches the response, and a request served this way has status 200 or 500.
\<close>
theorem uncaught_exception_gives_500:
  "(endpoint req = Inl exc \<longrightarrow>
      serve now endpoint req logged = global_exception_handler now req exc logged) \<and>
   global_exception_handler now req exc logged =
     (\<lparr>status_code = 500,
       content = JObj [(''error'', JStr ''Internal server error''),
                       (''message'', JStr ''An unexpected error occurred''),
                       (''timestamp'', JStr now)]\<rparr>,
      logged @ [\<lparr>level = ''error'', event = ''unhandled_exception'',
                 kwargs = [(''path'', url_path req), (''method'', request_method req),
                           (''error'', str exc)]\<rparr>]) \<and>
   (status_code (fst (serve now endpoint req logged)) = 200 \<or>
    status_code (fst (serve now endpoint req logged)) = 500)"
  by (cases "endpoint req")
     (simp_all add: serve_def global_exception_handler_def JSONResponse_def)

theorem uncaught_exception_gives_500_witness:
  "serve ''2026-01-01T00:00:00'' (\<lambda>r. Inl (Exception ''division by zero''))
     \<lparr>request_method = ''POST'', url_path = ''/interact'', body = ''{}''\<rparr> [] =
   (\<lparr>status_code = 500,
     content = JObj [(''error'', JStr ''Internal server error''),
                     (''message'', JStr ''An unexpected error occurred''),
                     (''timestamp'', JStr ''2026-01-01T00:00:00'')]\<rparr>,
    [\<lparr>level = ''error'', event = ''unhandled_exception'',
      kwargs = [(''path'', ''/interact''), (''method'', ''POST''),
                (''error'', ''division by zero'')]\<rparr>])"
proof -
  let ?e = "\<lambda>r :: request. (Inl (Exception ''division by zero'') :: exn + json)"
  let ?p = "\<lparr>request_method = ''POST'', url_path = ''/interact'', body = ''{}''\<rparr>"
  have h: "?e ?p = Inl (Exception ''division by zero'')" by simp
  show ?thesis
    using h uncaught_exception_gives_500
      [of ?e ?p "Exception ''division by zero''" "''2026-01-01T00:00:00''" "[]"]
    by simp
qed

end
